theory Spec2Isabelle
  imports Main "HOL-Library.AList" "HOL-Library.Char_ord" "HOL-Library.List_Lexorder"
begin

section \<open>Python values, exceptions and dictionaries\<close>

text \<open>
  The program is a Python 2 style script (\<^verbatim>\<open>postscreen_stats.py\<close>). Its strings are byte
  strings, modelled as \<^typ>\<open>string\<close>; its integers are unbounded, modelled as \<^typ>\<open>int\<close>.
  Timestamps returned by \<^verbatim>\<open>mktime\<close> are whole seconds and are modelled as \<^typ>\<open>int\<close> too.
  Every exception the modelled code can raise is a constructor of \<open>error\<close>.
\<close>

datatype error = TypeError | IndexError | ValueError | ZeroDivisionError | SystemExit

text \<open>A \<^verbatim>\<open>datetime.datetime\<close> object, as returned by \<^verbatim>\<open>dt.now()\<close>.\<close>

record datetime =
  dt_year :: int
  dt_month :: int
  dt_day :: int
  dt_hour :: int
  dt_minute :: int
  dt_second :: int

text \<open>The Python objects that the script passes to the builtin \<^verbatim>\<open>int()\<close>.\<close>

datatype pyobj = PyInt int | PyStr string | PyDatetime datetime

definition is_digit :: "char \<Rightarrow> bool" where
  "is_digit c = (c \<in> set ''0123456789'')"

definition digit_val :: "char \<Rightarrow> int" where
  "digit_val c = int (of_char c) - 48"

text \<open>Value of a string of decimal digits, most significant digit first.\<close>

definition digits_val :: "string \<Rightarrow> int" where
  "digits_val ds = foldl (\<lambda>acc c. 10 * acc + digit_val c) 0 ds"

text \<open>
  \<^verbatim>\<open>int(s)\<close> for a string without surrounding blanks: an optional sign followed by at
  least one decimal digit; anything else raises \<^verbatim>\<open>ValueError\<close>.
\<close>

definition int_of_str :: "string \<Rightarrow> error + int" where
  "int_of_str s =
    (let (neg, ds) = (case s of
                        c # r \<Rightarrow> if c = CHR ''-'' then (True, r)
                                 else if c = CHR ''+'' then (False, r) else (False, s)
                      | [] \<Rightarrow> (False, s))
     in if ds \<noteq> [] \<and> list_all is_digit ds
        then Inr (if neg then - digits_val ds else digits_val ds)
        else Inl ValueError)"

text \<open>
  The builtin \<^verbatim>\<open>int()\<close>. A \<^verbatim>\<open>datetime\<close> object defines none of \<^verbatim>\<open>__int__\<close>,
  \<^verbatim>\<open>__trunc__\<close> or \<^verbatim>\<open>__index__\<close>, so converting it raises \<^verbatim>\<open>TypeError\<close>.
\<close>

fun py_int :: "pyobj \<Rightarrow> error + int" where
  "py_int (PyInt i) = Inr i"
| "py_int (PyStr s) = int_of_str s"
| "py_int (PyDatetime d) = Inl TypeError"

text \<open>
  A \<^verbatim>\<open>defaultdict(int)\<close> is an association list in insertion order. Reading a missing key
  yields 0 and, as a side effect, inserts the key with value 0 (\<open>dd_touch\<close>).
\<close>

type_synonym ddict = "(string \<times> int) list"

definition dd_get :: "ddict \<Rightarrow> string \<Rightarrow> int" where
  "dd_get d k = (case map_of d k of Some v \<Rightarrow> v | None \<Rightarrow> 0)"

definition dd_touch :: "ddict \<Rightarrow> string \<Rightarrow> ddict" where
  "dd_touch d k = (case map_of d k of Some v \<Rightarrow> d | None \<Rightarrow> d @ [(k, 0)])"

definition dd_set :: "ddict \<Rightarrow> string \<Rightarrow> int \<Rightarrow> ddict" where
  "dd_set d k v = AList.update k v d"

text \<open>\<^verbatim>\<open>d[k] += n\<close>\<close>

definition dd_add :: "ddict \<Rightarrow> string \<Rightarrow> int \<Rightarrow> ddict" where
  "dd_add d k n = dd_set d k (dd_get d k + n)"

section \<open>String primitives\<close>

text \<open>\<^verbatim>\<open>s.startswith(p)\<close>, also the meaning of \<^verbatim>\<open>search("^p", s)\<close> for a literal \<open>p\<close>.\<close>

fun starts_with :: "string \<Rightarrow> string \<Rightarrow> bool" where
  "starts_with [] s = True"
| "starts_with (p # ps) [] = False"
| "starts_with (p # ps) (c # cs) = (p = c \<and> starts_with ps cs)"

text \<open>\<^verbatim>\<open>sub in s\<close>\<close>

fun contains :: "string \<Rightarrow> string \<Rightarrow> bool" where
  "contains sub [] = (sub = [])"
| "contains sub (c # cs) = (starts_with sub (c # cs) \<or> contains sub cs)"

text \<open>\<^verbatim>\<open>s.split(sep)\<close> for a one-character separator: never returns the empty list.\<close>

fun split_str :: "char \<Rightarrow> string \<Rightarrow> string list" where
  "split_str sep [] = [] # []"
| "split_str sep (c # cs) =
    (if c = sep then [] # split_str sep cs
     else (case split_str sep cs of h # t \<Rightarrow> (c # h) # t | [] \<Rightarrow> [c] # []))"

text \<open>Whitespace of a byte string: blank, tab, line feed, vertical tab, form feed, carriage return.\<close>

definition isspace :: "char \<Rightarrow> bool" where
  "isspace c = (c \<in> {CHR '' '', CHR 0x09, CHR 0x0A, CHR 0x0B, CHR 0x0C, CHR 0x0D})"

text \<open>
  \<^verbatim>\<open>s.split(None, maxsplit)\<close>: at most \<open>maxsplit\<close> words are split off; what is left, with
  its leading whitespace removed, is the last field if it is not empty (its trailing
  whitespace is kept).
\<close>

fun split_ws_n :: "nat \<Rightarrow> string \<Rightarrow> string list" where
  "split_ws_n 0 s =
    (let r = dropWhile isspace s in if r = [] then [] else [r])"
| "split_ws_n (Suc n) s =
    (let r = dropWhile isspace s in
     if r = [] then []
     else takeWhile (\<lambda>c. \<not> isspace c) r # split_ws_n n (dropWhile (\<lambda>c. \<not> isspace c) r))"

text \<open>\<^verbatim>\<open>s.split(None)\<close>: a string has no more words than characters.\<close>

definition split_ws :: "string \<Rightarrow> string list" where
  "split_ws s = split_ws_n (length s) s"

section \<open>The action filter\<close>

text \<open>
  \<^verbatim>\<open>ClientStat.action_filter\<close>. The inner loop runs over the \<^verbatim>\<open>&\<close>-separated names of one
  alternative and carries \<^verbatim>\<open>_and_action_filter\<close>; the outer loop runs over the
  \<^verbatim>\<open>|\<close>-separated alternatives and carries \<^verbatim>\<open>_pass_action_filter\<close>. Each lookup
  \<^verbatim>\<open>self.actions[and_action]\<close> reads a \<^verbatim>\<open>defaultdict\<close>, so the dictionary is threaded
  through both loops.
\<close>

fun and_loop :: "ddict \<Rightarrow> int \<Rightarrow> string list \<Rightarrow> int \<times> ddict" where
  "and_loop acts a [] = (a, acts)"
| "and_loop acts a (and_action # rest) =
    (if dd_get acts and_action > 0 \<and> a \<ge> 0
     then and_loop (dd_touch acts and_action) 1 rest
     else and_loop (dd_touch acts and_action) (- 1) rest)"

fun or_loop :: "ddict \<Rightarrow> int \<Rightarrow> string list \<Rightarrow> int \<times> ddict" where
  "or_loop acts p [] = (p, acts)"
| "or_loop acts p (or_action # rest) =
    (if p = 0
     then (case and_loop acts 0 (split_str CHR ''&'' or_action) of
             (a, acts') \<Rightarrow> or_loop acts' (if a > 0 then 1 else p) rest)
     else or_loop acts p rest)"

definition action_filter :: "ddict \<Rightarrow> string option \<Rightarrow> bool \<times> ddict" where
  "action_filter acts ac_filter =
    (case ac_filter of
       None \<Rightarrow> (True, acts)
     | Some f \<Rightarrow> (case or_loop acts 0 (split_str CHR ''|'' f) of
                   (p, acts') \<Rightarrow> (p = 1, acts')))"

section \<open>Regular expressions used by the main loop\<close>

text \<open>
  \<^verbatim>\<open>search(pat, s)\<close> for the patterns of the \<^verbatim>\<open>NOQUEUE:\<close> branch: every character of the
  pattern stands for itself, except the dot, which matches any character but a line feed.
\<close>

fun pat_here :: "string \<Rightarrow> string \<Rightarrow> bool" where
  "pat_here [] s = True"
| "pat_here (p # ps) [] = False"
| "pat_here (p # ps) (c # cs) =
    ((if p = CHR ''.'' then c \<noteq> CHR 0x0A else p = c) \<and> pat_here ps cs)"

fun re_search :: "string \<Rightarrow> string \<Rightarrow> bool" where
  "re_search pat [] = pat_here pat []"
| "re_search pat (c # cs) = (pat_here pat (c # cs) \<or> re_search pat cs)"

text \<open>
  \<^verbatim>\<open>match("^TOKEN$", s)\<close> for a literal token: the whole of \<open>s\<close> is the token, possibly
  followed by one final line feed (which \<^verbatim>\<open>$\<close> tolerates).
\<close>

definition re_match_token :: "string \<Rightarrow> string \<Rightarrow> bool" where
  "re_match_token tok s = (s = tok \<or> s = tok @ [CHR 0x0A])"

text \<open>
  \<^verbatim>\<open>IP_REGEXP\<close>. A backtracking matcher is a function from the text still to be read to
  the list of texts that can be left after a match, in the order in which the regular
  expression engine tries them. One octet is
  \<^verbatim>\<open>25[0-5]|2[0-4][0-9]|[01]?[0-9][0-9]?\<close>; optional parts are greedy.
\<close>

definition re_char :: "(char \<Rightarrow> bool) \<Rightarrow> string \<Rightarrow> string list" where
  "re_char P s = (case s of c # r \<Rightarrow> if P c then [r] else [] | [] \<Rightarrow> [])"

definition re_opt :: "(char \<Rightarrow> bool) \<Rightarrow> string \<Rightarrow> string list" where
  "re_opt P s = (case s of c # r \<Rightarrow> if P c then [r, s] else [s] | [] \<Rightarrow> [s])"

definition re_then :: "(string \<Rightarrow> string list) \<Rightarrow> (string \<Rightarrow> string list) \<Rightarrow> string \<Rightarrow> string list" where
  "re_then m1 m2 s = concat (map m2 (m1 s))"

definition ip_octet :: "string \<Rightarrow> string list" where
  "ip_octet s =
     re_then (re_char (\<lambda>c. c = CHR ''2''))
       (re_then (re_char (\<lambda>c. c = CHR ''5'')) (re_char (\<lambda>c. c \<in> set ''012345''))) s
   @ re_then (re_char (\<lambda>c. c = CHR ''2''))
       (re_then (re_char (\<lambda>c. c \<in> set ''01234'')) (re_char is_digit)) s
   @ re_then (re_opt (\<lambda>c. c \<in> set ''01''))
       (re_then (re_char is_digit) (re_opt is_digit)) s"

definition ip_octet_dot :: "string \<Rightarrow> string list" where
  "ip_octet_dot = re_then ip_octet (re_char (\<lambda>c. c = CHR ''.''))"

definition ip_here :: "string \<Rightarrow> string list" where
  "ip_here = re_then ip_octet_dot (re_then ip_octet_dot (re_then ip_octet_dot ip_octet))"

text \<open>
  \<^verbatim>\<open>search(IP_REGEXP, s)\<close> together with \<^verbatim>\<open>split(IP_REGEXP, s, maxsplit=1)[1]\<close>: the text of
  the leftmost match, if there is one.
\<close>

fun ip_search :: "string \<Rightarrow> string option" where
  "ip_search [] = None"
| "ip_search (c # cs) =
    (case ip_here (c # cs) of
       r # _ \<Rightarrow> Some (take (length (c # cs) - length r) (c # cs))
     | [] \<Rightarrow> ip_search cs)"

section \<open>Configuration and time stamps\<close>

datatype report_mode = Short | Full | Ip | NoReport

text \<open>
  The global variables set from the command line. \<open>YEAR\<close> holds \<^verbatim>\<open>str(YEAR)\<close>.
  Geolocation is left out: the model covers the runs with \<^verbatim>\<open>GEOFILE = ""\<close>, the default.
\<close>

record config =
  IP_FILTER :: string
  ACTION_FILTER :: "string option"
  YEAR :: string
  REPORT_MODE :: report_mode
  RFC3339 :: bool

text \<open>\<^verbatim>\<open>LOG_CURSOR\<close> is 3 with \<^verbatim>\<open>--rfc3339\<close> and 5 otherwise.\<close>

definition LOG_CURSOR :: "config \<Rightarrow> nat" where
  "LOG_CURSOR cfg = (if RFC3339 cfg then 3 else 5)"

text \<open>
  The functions of the \<^verbatim>\<open>time\<close> module are parameters of the model. A \<^verbatim>\<open>struct_time\<close> is
  represented by its date and time fields, so \<^verbatim>\<open>now_ts.timetuple()\<close> is \<open>now_ts\<close> itself.
  \<open>strptime\<close> takes the text and the format.
\<close>

record timelib =
  strptime :: "string \<Rightarrow> string \<Rightarrow> error + datetime"
  mktime :: "datetime \<Rightarrow> int"

text \<open>
  \<^verbatim>\<open>gen_unix_ts(syslog_ts)\<close>; \<open>now_ts\<close> is the value of \<^verbatim>\<open>dt.now()\<close>. The first statement
  after it is \<^verbatim>\<open>unix_ts = int(now_ts)\<close>.
\<close>

definition gen_unix_ts :: "timelib \<Rightarrow> config \<Rightarrow> datetime \<Rightarrow> string \<Rightarrow> error + int" where
  "gen_unix_ts lib cfg now_ts syslog_ts =
    (case py_int (PyDatetime now_ts) of
       Inl e \<Rightarrow> Inl e
     | Inr unix_ts0 \<Rightarrow>
        (case (if RFC3339 cfg
               then strptime lib (takeWhile (\<lambda>c. c \<noteq> CHR ''+'') syslog_ts) ''%Y-%m-%dT%H:%M:%S''
               else strptime lib (YEAR cfg @ '' '' @ syslog_ts) ''%Y %b %d %H:%M:%S'') of
           Inl e \<Rightarrow> Inl e
         | Inr full_ts \<Rightarrow>
            (let unix_ts = mktime lib full_ts in
             if unix_ts > mktime lib now_ts then Inl SystemExit else Inr unix_ts)))"

section \<open>Client statistics and the main loop\<close>

record ClientStat =
  logs :: ddict
  actions :: ddict
  dnsbl_ranks :: "string list"

definition new_ClientStat :: ClientStat where
  "new_ClientStat = \<lparr>logs = [], actions = [], dnsbl_ranks = []\<rparr>"

text \<open>\<^verbatim>\<open>IP_LIST\<close>: a dictionary from the client address to its \<^verbatim>\<open>ClientStat\<close> object.\<close>

type_synonym ip_list = "(string \<times> ClientStat) list"

text \<open>
  A statement that raises leaves the changes made before it in place, so a failure carries
  the state reached when the exception was raised.
\<close>

type_synonym 'a result = "(error \<times> 'a) + 'a"

definition k_first :: string where "k_first = ''FIRST SEEN''"
definition k_last :: string where "k_last = ''LAST SEEN''"
definition k_connect :: string where "k_connect = ''CONNECT''"
definition k_reco :: string where "k_reco = ''RECO. DELAY (graylist)''"
definition k_noq450 :: string where
  "k_noq450 = ''NOQUEUE 450 deep protocol test reconnection''"
definition k_busy :: string where "k_busy = ''NOQUEUE all server ports busy''"

text \<open>The body of the \<^verbatim>\<open>PASS\<close> branch for a remainder that starts with \<^verbatim>\<open>OLD\<close>.\<close>

definition pass_old :: "ClientStat \<Rightarrow> ClientStat" where
  "pass_old cs =
    (let acts1 = dd_add (actions cs) ''PASS OLD'' 1;
         logs1 = dd_touch (logs cs) k_connect
     in if dd_get logs1 k_connect = 2
        then (let acts2 = dd_touch acts1 k_noq450
              in if dd_get acts2 k_noq450 > 0
                 then (let logs2 = dd_touch (dd_touch logs1 k_last) k_first
                       in cs\<lparr>logs := dd_set logs2 k_reco (dd_get logs2 k_last - dd_get logs2 k_first),
                              actions := acts2\<rparr>)
                 else cs\<lparr>logs := logs1, actions := acts2\<rparr>)
        else cs\<lparr>logs := logs1, actions := acts1\<rparr>)"

definition incr_action :: "string \<Rightarrow> ClientStat \<Rightarrow> ClientStat" where
  "incr_action k cs = cs\<lparr>actions := dd_add (actions cs) k 1\<rparr>"

text \<open>
  The chain of \<^verbatim>\<open>if\<close>/\<^verbatim>\<open>elif\<close> under \<^verbatim>\<open>elif current_ip in IP_LIST\<close>, applied to the client's
  object. \<open>tok\<close> is \<^verbatim>\<open>line_fields[LOG_CURSOR]\<close> and \<open>rest\<close> is \<^verbatim>\<open>line_fields[LOG_CURSOR + 1]\<close>.
\<close>

definition count_action :: "string \<Rightarrow> string \<Rightarrow> ClientStat \<Rightarrow> ClientStat result" where
  "count_action tok rest cs =
    (if re_match_token ''PASS'' tok then
       (if starts_with ''OLD'' rest then Inr (pass_old cs)
        else if starts_with ''NEW'' rest then Inr (incr_action ''PASS NEW'' cs)
        else Inr cs)
     else if re_match_token ''NOQUEUE:'' tok then
       (if re_search ''too many connections'' rest
          then Inr (incr_action ''NOQUEUE too many connections'' cs)
        else if re_search ''all server ports busy'' tok
          then Inr (incr_action k_busy cs)
        else if re_search ''450 4.3.2 Service currently unavailable'' rest
          then Inr (incr_action k_noq450 cs)
        else Inr cs)
     else if re_match_token ''HANGUP'' tok then Inr (incr_action ''HANGUP'' cs)
     else if re_match_token ''DNSBL'' tok then
       (let cs1 = incr_action ''DNSBL'' cs; rank_line = split_ws rest
        in if length rank_line \<le> 1 then Inl (IndexError, cs1)
           else Inr (cs1\<lparr>dnsbl_ranks := dnsbl_ranks cs1 @ [rank_line ! 1]\<rparr>))
     else if re_match_token ''PREGREET'' tok then Inr (incr_action ''PREGREET'' cs)
     else if re_match_token ''COMMAND'' tok then
       (if starts_with ''PIPELINING'' rest then Inr (incr_action ''COMMAND PIPELINING'' cs)
        else if starts_with ''TIME LIMIT'' rest then Inr (incr_action ''COMMAND TIME LIMIT'' cs)
        else if starts_with ''COUNT LIMIT'' rest then Inr (incr_action ''COMMAND COUNT LIMIT'' cs)
        else if starts_with ''LENGTH LIMIT'' rest then Inr (incr_action ''COMMAND LENGTH LIMIT'' cs)
        else Inr cs)
     else if re_match_token ''WHITELISTED'' tok then Inr (incr_action ''WHITELISTED'' cs)
     else if re_match_token ''BLACKLISTED'' tok then Inr (incr_action ''BLACKLISTED'' cs)
     else if re_match_token ''BARE'' tok then
       (if starts_with ''NEWLINE'' rest then Inr (incr_action ''BARE NEWLINE'' cs) else Inr cs)
     else if re_match_token ''NON-SMTP'' tok then
       (if starts_with ''COMMAND'' rest then Inr (incr_action ''NON-SMTP COMMAND'' cs) else Inr cs)
     else if re_match_token ''WHITELIST'' tok then
       (if starts_with ''VETO'' rest then Inr (incr_action ''WHITELIST VETO'' cs) else Inr cs)
     else Inr cs)"

text \<open>The fields of a log line, the action token, the remainder and the client address.\<close>

definition line_fields :: "config \<Rightarrow> string \<Rightarrow> string list" where
  "line_fields cfg line = split_ws_n (LOG_CURSOR cfg + 1) line"

definition action_token :: "config \<Rightarrow> string \<Rightarrow> string" where
  "action_token cfg line = line_fields cfg line ! LOG_CURSOR cfg"

definition remainder :: "config \<Rightarrow> string \<Rightarrow> string" where
  "remainder cfg line = line_fields cfg line ! (LOG_CURSOR cfg + 1)"

definition current_ip :: "config \<Rightarrow> string \<Rightarrow> string" where
  "current_ip cfg line =
    (case ip_search (remainder cfg line) of Some ip \<Rightarrow> ip | None \<Rightarrow> ''999.999.999.999'')"

definition syslog_date :: "config \<Rightarrow> string \<Rightarrow> string" where
  "syslog_date cfg line =
    (let lf = line_fields cfg line
     in if RFC3339 cfg then lf ! 0 else lf ! 0 @ '' '' @ lf ! 1 @ '' '' @ lf ! 2)"

text \<open>
  The \<^verbatim>\<open>CONNECT\<close> branch. In an assignment the right-hand side \<^verbatim>\<open>gen_unix_ts(syslog_date)\<close>
  is evaluated before the target, so when it raises no key has been added to \<^verbatim>\<open>logs\<close>.
\<close>

definition connect :: "timelib \<Rightarrow> config \<Rightarrow> datetime \<Rightarrow> string \<Rightarrow> string \<Rightarrow> ip_list \<Rightarrow> ip_list result" where
  "connect lib cfg now_ts ip date ipl =
    (case map_of ipl ip of
       None \<Rightarrow>
        (let ipl1 = AList.update ip new_ClientStat ipl
         in case gen_unix_ts lib cfg now_ts date of
              Inl e \<Rightarrow> Inl (e, ipl1)
            | Inr t1 \<Rightarrow>
               (let cs1 = new_ClientStat\<lparr>logs := dd_set [] k_first t1\<rparr>;
                    ipl2 = AList.update ip cs1 ipl1
                in case gen_unix_ts lib cfg now_ts date of
                     Inl e \<Rightarrow> Inl (e, ipl2)
                   | Inr t2 \<Rightarrow>
                      (let cs2 = cs1\<lparr>logs := dd_set (logs cs1) k_last t2\<rparr>
                       in Inr (AList.update ip (cs2\<lparr>logs := dd_add (logs cs2) k_connect 1\<rparr>) ipl2))))
     | Some cs \<Rightarrow>
        (case gen_unix_ts lib cfg now_ts date of
           Inl e \<Rightarrow> Inl (e, ipl)
         | Inr t \<Rightarrow>
            (let cs1 = cs\<lparr>logs := dd_set (logs cs) k_last t\<rparr>
             in Inr (AList.update ip (cs1\<lparr>logs := dd_add (logs cs1) k_connect 1\<rparr>) ipl))))"

text \<open>One iteration of \<^verbatim>\<open>for line in MAILLOG\<close>.\<close>

definition process_line :: "timelib \<Rightarrow> config \<Rightarrow> datetime \<Rightarrow> ip_list \<Rightarrow> string \<Rightarrow> ip_list result" where
  "process_line lib cfg now_ts ipl line =
    (if contains ''/postscreen['' line then
       if contains (IP_FILTER cfg) line then
         if length (line_fields cfg line) \<le> LOG_CURSOR cfg + 1 then Inl (IndexError, ipl)
         else if re_match_token ''CONNECT'' (action_token cfg line)
           then connect lib cfg now_ts (current_ip cfg line) (syslog_date cfg line) ipl
         else (case map_of ipl (current_ip cfg line) of
                 Some cs \<Rightarrow>
                  (case count_action (action_token cfg line) (remainder cfg line) cs of
                     Inl (e, cs') \<Rightarrow> Inl (e, AList.update (current_ip cfg line) cs' ipl)
                   | Inr cs' \<Rightarrow> Inr (AList.update (current_ip cfg line) cs' ipl))
               | None \<Rightarrow> Inr ipl)
       else Inr ipl
     else Inr ipl)"

text \<open>The whole loop over the lines of the log; it stops at the first exception.\<close>

fun process_lines :: "timelib \<Rightarrow> config \<Rightarrow> datetime \<Rightarrow> ip_list \<Rightarrow> string list \<Rightarrow> ip_list result" where
  "process_lines lib cfg now_ts ipl [] = Inr ipl"
| "process_lines lib cfg now_ts ipl (line # rest) =
    (case process_line lib cfg now_ts ipl line of
       Inl err \<Rightarrow> Inl err
     | Inr ipl' \<Rightarrow> process_lines lib cfg now_ts ipl' rest)"

section \<open>The summary of the normal report modes\<close>

text \<open>
  The dictionaries built after the log has been read. \<open>clients\<close> is \<^verbatim>\<open>IP_LIST\<close>, whose
  \<^verbatim>\<open>defaultdict\<close>s are read, and so possibly extended, while the summary is computed.
\<close>

record summary =
  clients :: ip_list
  CLIENTS :: ddict
  COMEBACK :: ddict
  POSTSCREEN_STATS :: ddict

definition COMEBACK_init :: ddict where
  "COMEBACK_init =
    [(''<10s'', 0), (''10s to 30s'', 0), (''>30s to 1min'', 0), (''>1min to 5min'', 0),
     (''>5 min to 30min'', 0), (''>30min to 2h'', 0), (''>2h to 5h'', 0),
     (''>5h to 12h'', 0), (''>12h to 24h'', 0), (''>24h'', 0)]"

definition summary_init :: "ip_list \<Rightarrow> summary" where
  "summary_init ipl =
    \<lparr>clients = ipl, CLIENTS = [], COMEBACK = COMEBACK_init, POSTSCREEN_STATS = []\<rparr>"

text \<open>
  The key of \<^verbatim>\<open>COMEBACK\<close> that the chain of \<^verbatim>\<open>if\<close>/\<^verbatim>\<open>elif\<close>/\<^verbatim>\<open>else\<close> increments for a
  reconnection delay.
\<close>

definition comeback_bucket :: "int \<Rightarrow> string" where
  "comeback_bucket d =
    (if d < 10 then ''<10s''
     else if 10 < d \<and> d \<le> 30 then ''10s to 30s''
     else if 30 < d \<and> d \<le> 60 then ''>30s to 1min''
     else if 60 < d \<and> d \<le> 300 then ''>1min to 5min''
     else if 300 < d \<and> d \<le> 1800 then ''>5 min to 30min''
     else if 1800 < d \<and> d \<le> 7200 then ''>30min to 2h''
     else if 7200 < d \<and> d \<le> 18000 then ''>2h to 5h''
     else if 18000 < d \<and> d \<le> 43200 then ''>5h to 12h''
     else if 43200 < d \<and> d \<le> 86400 then ''>12h to 24h''
     else ''>24h'')"

definition k_avg_rank :: string where "k_avg_rank = ''avg. dnsbl rank''"
definition k_avg_delay :: string where "k_avg_delay = ''seconds avg. reco. delay''"
definition k_reconnections :: string where "k_reconnections = ''reconnections''"

text \<open>
  \<^verbatim>\<open>for rank in dnsbl_ranks: CLIENTS["avg. dnsbl rank"] += int(rank)\<close>. The augmented
  assignment reads \<^verbatim>\<open>CLIENTS["avg. dnsbl rank"]\<close> before it evaluates \<^verbatim>\<open>int(rank)\<close>.
\<close>

fun rank_loop :: "ddict \<Rightarrow> string list \<Rightarrow> ddict result" where
  "rank_loop C [] = Inr C"
| "rank_loop C (rank # rest) =
    (case py_int (PyStr rank) of
       Inl e \<Rightarrow> Inl (e, dd_touch C k_avg_rank)
     | Inr n \<Rightarrow> rank_loop (dd_add C k_avg_rank n) rest)"

text \<open>\<^verbatim>\<open>for action in sorted(actions): POSTSCREEN_STATS[action] += actions[action]\<close>\<close>

definition stats_loop :: "ddict \<Rightarrow> ddict \<Rightarrow> ddict" where
  "stats_loop acts P = foldl (\<lambda>P action. dd_add P action (dd_get acts action)) P (sort (map fst acts))"

text \<open>The body of \<^verbatim>\<open>for client in IP_LIST\<close>.\<close>

definition summarize_client :: "string option \<Rightarrow> summary \<Rightarrow> string \<Rightarrow> summary result" where
  "summarize_client ac_filter S client =
    (case map_of (clients S) client of
       None \<Rightarrow> Inr S
     | Some cs \<Rightarrow>
        (case action_filter (actions cs) ac_filter of
           (ok, acts1) \<Rightarrow>
            if \<not> ok then Inr (S\<lparr>clients := AList.update client (cs\<lparr>actions := acts1\<rparr>) (clients S)\<rparr>)
            else
              (let C1 = dd_add (CLIENTS S) ''clients'' 1;
                   logs1 = dd_touch (logs cs) k_reco;
                   d = dd_get logs1 k_reco;
                   C2 = (if d > 0 then dd_add (dd_add C1 k_reconnections 1) k_avg_delay d else C1);
                   B2 = (if d > 0 then dd_add (COMEBACK S) (comeback_bucket d) 1 else COMEBACK S);
                   P2 = stats_loop acts1 (POSTSCREEN_STATS S);
                   acts2 = dd_touch acts1 ''DNSBL'';
                   cs2 = cs\<lparr>logs := logs1, actions := acts2\<rparr>;
                   S2 = \<lparr>clients = AList.update client cs2 (clients S), CLIENTS = C2,
                         COMEBACK = B2, POSTSCREEN_STATS = P2\<rparr>
               in if dd_get acts2 ''DNSBL'' > 0
                  then (case rank_loop C2 (dnsbl_ranks cs2) of
                          Inl (e, C3) \<Rightarrow> Inl (e, S2\<lparr>CLIENTS := C3\<rparr>)
                        | Inr C3 \<Rightarrow> Inr (S2\<lparr>CLIENTS := C3\<rparr>))
                  else Inr S2)))"

fun client_loop :: "string option \<Rightarrow> summary \<Rightarrow> string list \<Rightarrow> summary result" where
  "client_loop ac_filter S [] = Inr S"
| "client_loop ac_filter S (client # rest) =
    (case summarize_client ac_filter S client of
       Inl err \<Rightarrow> Inl err
     | Inr S' \<Rightarrow> client_loop ac_filter S' rest)"

text \<open>Division of two integers with \<^verbatim>\<open>/\<close>: floor division, \<^verbatim>\<open>ZeroDivisionError\<close> for divisor 0.\<close>

definition py_div :: "int \<Rightarrow> int \<Rightarrow> error + int" where
  "py_div a b = (if b = 0 then Inl ZeroDivisionError else Inr (a div b))"

text \<open>
  The two averages computed after the loop. The second one is guarded by
  \<^verbatim>\<open>POSTSCREEN_STATS["DNSBL"]\<close> and divides by \<^verbatim>\<open>POSTSCREEN_STATS["dnsbl"]\<close>.
\<close>

definition averages :: "summary \<Rightarrow> summary result" where
  "averages S =
    (let C1 = dd_touch (CLIENTS S) k_reconnections;
         C2 = (if dd_get C1 k_reconnections > 0
               then (let C1' = dd_touch C1 k_avg_delay
                     in dd_set C1' k_avg_delay (dd_get C1' k_avg_delay div dd_get C1' k_reconnections))
               else C1);
         P1 = dd_touch (POSTSCREEN_STATS S) ''DNSBL''
     in if dd_get P1 ''DNSBL'' > 0
        then (let C3 = dd_touch C2 k_avg_rank
              in if dd_get C3 k_avg_rank > 0
                 then (let P2 = dd_touch P1 ''dnsbl''
                       in case py_div (dd_get C3 k_avg_rank) (dd_get P2 ''dnsbl'') of
                            Inl e \<Rightarrow> Inl (e, S\<lparr>CLIENTS := C3, POSTSCREEN_STATS := P2\<rparr>)
                          | Inr q \<Rightarrow> Inr (S\<lparr>CLIENTS := dd_set C3 k_avg_rank q, POSTSCREEN_STATS := P2\<rparr>))
                 else Inr (S\<lparr>CLIENTS := C3, POSTSCREEN_STATS := P1\<rparr>))
        else Inr (S\<lparr>CLIENTS := C2, POSTSCREEN_STATS := P1\<rparr>))"

text \<open>The block under \<^verbatim>\<open>if REPORT_MODE in ('short', 'full', 'none')\<close>.\<close>

definition summarize :: "config \<Rightarrow> ip_list \<Rightarrow> summary result" where
  "summarize cfg ipl =
    (if REPORT_MODE cfg \<in> {Short, Full, NoReport}
     then (case client_loop (ACTION_FILTER cfg) (summary_init ipl) (map fst ipl) of
             Inl err \<Rightarrow> Inl err
           | Inr S \<Rightarrow> averages S)
     else Inr (summary_init ipl))"

section \<open>Sample inputs\<close>

text \<open>The default configuration: no filters, syslog time stamps, short report.\<close>

definition ex_cfg :: config where
  "ex_cfg = \<lparr>IP_FILTER = '' '', ACTION_FILTER = None, YEAR = ''2018'',
             REPORT_MODE = Short, RFC3339 = False\<rparr>"

definition ex_now :: datetime where
  "ex_now = \<lparr>dt_year = 2018, dt_month = 5, dt_day = 14, dt_hour = 12, dt_minute = 0,
             dt_second = 0\<rparr>"

text \<open>A time library whose parser always answers with the current time.\<close>

definition ex_lib :: timelib where
  "ex_lib = \<lparr>strptime = (\<lambda>text fmt. Inr ex_now),
             mktime = (\<lambda>t. 3600 * dt_hour t + 60 * dt_minute t + dt_second t)\<rparr>"

definition ex_connect_line :: string where
  "ex_connect_line =
    ''Oct 23 04:02:17 mx postfix/postscreen[123]: CONNECT from [1.2.3.4]:1234 to [5.6.7.8]:25''"

definition ex_busy_line :: string where
  "ex_busy_line =
    ''Oct 23 04:02:17 mx postfix/postscreen[123]: NOQUEUE: reject: CONNECT from [1.2.3.4]:1234: all server ports busy''"

definition ex_pass_old_line :: string where
  "ex_pass_old_line = ''Oct 23 04:03:17 mx postfix/postscreen[123]: PASS OLD [1.2.3.4]:1234''"

definition ex_hangup_line :: string where
  "ex_hangup_line =
    ''Oct 23 04:03:18 mx postfix/postscreen[123]: HANGUP after 0.5 from [1.2.3.4]:1234 in tests after SMTP handshake''"

text \<open>A \<^verbatim>\<open>HANGUP\<close> line that ends at its action token.\<close>

definition ex_short_line :: string where
  "ex_short_line = ''Oct 23 04:03:18 mx postfix/postscreen[123]: HANGUP''"

text \<open>A client seen twice, one minute apart, and rejected once with code 450 in between.\<close>

definition ex_known :: ip_list where
  "ex_known =
    [(''1.2.3.4'',
      \<lparr>logs = [(''FIRST SEEN'', 100), (''LAST SEEN'', 160), (''CONNECT'', 2)],
       actions = [(''NOQUEUE 450 deep protocol test reconnection'', 1)],
       dnsbl_ranks = []\<rparr>)]"

text \<open>A client whose reconnection delay is exactly ten seconds.\<close>

definition ex_delay10 :: ip_list where
  "ex_delay10 =
    [(''1.2.3.4'',
      \<lparr>logs = [(''FIRST SEEN'', 100), (''LAST SEEN'', 110), (''CONNECT'', 2),
               (''RECO. DELAY (graylist)'', 10)],
       actions = [(''NOQUEUE 450 deep protocol test reconnection'', 1), (''PASS OLD'', 1)],
       dnsbl_ranks = []\<rparr>)]"

text \<open>A client that triggered one blocklist, with rank 5.\<close>

definition ex_dnsbl :: ip_list where
  "ex_dnsbl =
    [(''1.2.3.4'',
      \<lparr>logs = [(''FIRST SEEN'', 100), (''LAST SEEN'', 100), (''CONNECT'', 1)],
       actions = [(''DNSBL'', 1)],
       dnsbl_ranks = [''5'']\<rparr>)]"

text \<open>The sample client after one \<^verbatim>\<open>PASS OLD\<close> line.\<close>

definition ex_after_pass_old :: ip_list where
  "ex_after_pass_old =
    [(''1.2.3.4'',
      \<lparr>logs = [(''FIRST SEEN'', 100), (''LAST SEEN'', 160), (''CONNECT'', 2),
               (''RECO. DELAY (graylist)'', 60)],
       actions = [(''NOQUEUE 450 deep protocol test reconnection'', 1), (''PASS OLD'', 1)],
       dnsbl_ranks = []\<rparr>)]"

text \<open>
  The state of a client whose reconnection delay has been computed and whose connection
  count is still 2: the stored delay is \<open>d\<close>, and so is \<^verbatim>\<open>LAST SEEN - FIRST SEEN\<close>.
\<close>

definition reco_settled :: "int \<Rightarrow> ClientStat \<Rightarrow> bool" where
  "reco_settled d cs =
     (dd_get (logs cs) k_connect = 2
      \<and> dd_get (logs cs) k_last - dd_get (logs cs) k_first = d
      \<and> dd_get (logs cs) k_reco = d)"

section \<open>Dictionaries and splitting\<close>

lemma dd_get_touch: "dd_get (dd_touch d k) k' = dd_get d k'"
  by (auto simp: dd_get_def dd_touch_def split: option.splits if_splits)

lemma dd_get_set: "dd_get (dd_set d k v) k' = (if k' = k then v else dd_get d k')"
  by (simp add: dd_get_def dd_set_def update_conv')

lemma dd_get_add: "dd_get (dd_add d k n) k' = (if k' = k then dd_get d k + n else dd_get d k')"
  by (simp add: dd_add_def dd_get_set)

lemma split_str_not_Nil: "split_str sep s \<noteq> []"
  by (induction s) (auto split: list.splits)

lemma split_str_no_sep: "sep \<notin> set s \<Longrightarrow> split_str sep s = [s]"
  by (induction s) auto

lemma and_loop_get: "dd_get (snd (and_loop acts a ls)) k = dd_get acts k"
  by (induction ls arbitrary: acts a) (simp_all add: dd_get_touch)

lemma and_loop_pos:
  "(0 < fst (and_loop acts a ls)) =
     (if ls = [] then 0 < a else 0 \<le> a \<and> (\<forall>l \<in> set ls. 0 < dd_get acts l))"
proof (induction ls arbitrary: acts a)
  case Nil
  show ?case by simp
next
  case (Cons l ls)
  show ?case
    by (cases "ls = []") (auto simp: Cons.IH dd_get_touch)
qed

lemma or_loop_pass:
  assumes "\<forall>k. dd_get acts k = g k" and "p = 0 \<or> p = 1"
  shows "(fst (or_loop acts p ds) = 1) =
     (p = 1 \<or> (\<exists>d \<in> set ds. \<forall>l \<in> set (split_str CHR ''&'' d). 0 < g l))"
  using assms
proof (induction ds arbitrary: acts p)
  case Nil
  then show ?case by auto
next
  case (Cons d ds)
  show ?case
  proof (cases "p = 0")
    case False
    with Cons.prems have p1: "p = 1" by simp
    show ?thesis using Cons.IH [OF Cons.prems(1), of 1] p1 by simp
  next
    case True
    obtain a acts' where al: "and_loop acts 0 (split_str CHR ''&'' d) = (a, acts')"
      by (cases "and_loop acts 0 (split_str CHR ''&'' d)")
    have g': "\<forall>k. dd_get acts' k = g k"
      using and_loop_get [of acts 0 "split_str CHR ''&'' d"] al Cons.prems(1) by simp
    have apos: "(0 < a) = (\<forall>l \<in> set (split_str CHR ''&'' d). 0 < g l)"
      using and_loop_pos [of acts 0 "split_str CHR ''&'' d"] al Cons.prems(1)
      by (simp add: split_str_not_Nil)
    show ?thesis
      using Cons.IH [OF g', of "if 0 < a then 1 else 0"] True al apos by auto
  qed
qed

lemma action_filter_Some:
  "fst (action_filter acts (Some f)) =
     (\<exists>d \<in> set (split_str CHR ''|'' f). \<forall>l \<in> set (split_str CHR ''&'' d). 0 < dd_get acts l)"
  using or_loop_pass [of acts "dd_get acts" 0 "split_str CHR ''|'' f"]
  by (cases "or_loop acts 0 (split_str CHR ''|'' f)") (simp add: action_filter_def)

section \<open>Properties of the action filter\<close>

text \<open>
  Claim C4. For every filter string and every actions dictionary whose counters are not
  negative, \<^verbatim>\<open>action_filter\<close> returns true exactly when some \<^verbatim>\<open>|\<close>-separated
  alternative has a nonzero count for each of its \<^verbatim>\<open>&\<close>-separated names; the filter
  \<^verbatim>\<open>None\<close> always passes. The filter \<^verbatim>\<open>PREGREET&DNSBL|HANGUP\<close> accepts
  \<^verbatim>\<open>{PREGREET: 1, DNSBL: 1}\<close> and \<^verbatim>\<open>{HANGUP: 1}\<close>, rejects \<^verbatim>\<open>{PREGREET: 1}\<close>, and
  \<^verbatim>\<open>None\<close> accepts the empty dictionary.
\<close>
theorem action_filter_semantics:
  assumes "\<forall>k. 0 \<le> dd_get acts k"
  shows "fst (action_filter acts None)
       \<and> (fst (action_filter acts (Some f)) =
            (\<exists>d \<in> set (split_str CHR ''|'' f). \<forall>l \<in> set (split_str CHR ''&'' d). dd_get acts l \<noteq> 0))
       \<and> fst (action_filter [(''PREGREET'', 1), (''DNSBL'', 1)] (Some ''PREGREET&DNSBL|HANGUP''))
       \<and> fst (action_filter [(''HANGUP'', 1)] (Some ''PREGREET&DNSBL|HANGUP''))
       \<and> \<not> fst (action_filter [(''PREGREET'', 1)] (Some ''PREGREET&DNSBL|HANGUP''))
       \<and> fst (action_filter [] None)"
proof -
  have pos: "(0 < dd_get acts l) = (dd_get acts l \<noteq> 0)" for l
    using assms [rule_format, of l] by arith
  have general: "fst (action_filter acts (Some f)) =
            (\<exists>d \<in> set (split_str CHR ''|'' f). \<forall>l \<in> set (split_str CHR ''&'' d). dd_get acts l \<noteq> 0)"
    by (simp add: action_filter_Some pos)
  have none: "fst (action_filter a None)" for a
    by (simp add: action_filter_def)
  have e1: "fst (action_filter [(''PREGREET'', 1), (''DNSBL'', 1)] (Some ''PREGREET&DNSBL|HANGUP''))"
    by (simp add: action_filter_def dd_get_def dd_touch_def)
  have e2: "fst (action_filter [(''HANGUP'', 1)] (Some ''PREGREET&DNSBL|HANGUP''))"
    by (simp add: action_filter_def dd_get_def dd_touch_def)
  have e3: "\<not> fst (action_filter [(''PREGREET'', 1)] (Some ''PREGREET&DNSBL|HANGUP''))"
    by (simp add: action_filter_def dd_get_def dd_touch_def)
  show ?thesis using general none e1 e2 e3 by simp
qed

text \<open>Claim C4, at the dictionary \<^verbatim>\<open>{HANGUP: 2}\<close>, whose counters are not negative.\<close>
theorem action_filter_semantics_witness:
  "(\<forall>k. 0 \<le> dd_get [(''HANGUP'', 2)] k)
   \<and> fst (action_filter [(''HANGUP'', 2)] None)
   \<and> fst (action_filter [(''HANGUP'', 2)] (Some ''PREGREET&DNSBL|HANGUP''))
   \<and> (\<exists>d \<in> set (split_str CHR ''|'' ''PREGREET&DNSBL|HANGUP'').
         \<forall>l \<in> set (split_str CHR ''&'' d). dd_get [(''HANGUP'', 2)] l \<noteq> 0)"
proof -
  have h: "\<forall>k. 0 \<le> dd_get [(''HANGUP'', 2)] k" by (simp add: dd_get_def)
  have ev: "fst (action_filter [(''HANGUP'', 2)] (Some ''PREGREET&DNSBL|HANGUP''))"
    by (simp add: action_filter_def dd_get_def dd_touch_def)
  show ?thesis
    using h ev action_filter_semantics [OF h, of "''PREGREET&DNSBL|HANGUP''"] by blast
qed

text \<open>
  Claim C6 as stated fails: the key \<^verbatim>\<open>NOQUEUE 450 deep protocol test reconnection\<close> starts
  with \<^verbatim>\<open>NOQUEUE\<close> and has a nonzero count, yet the filter \<^verbatim>\<open>NOQUEUE\<close> rejects the client.
\<close>
theorem prefix_literal_counterexample:
  "starts_with ''NOQUEUE'' ''NOQUEUE 450 deep protocol test reconnection''
   \<and> dd_get [(''NOQUEUE 450 deep protocol test reconnection'', 1)]
        ''NOQUEUE 450 deep protocol test reconnection'' \<noteq> 0
   \<and> \<not> fst (action_filter [(''NOQUEUE 450 deep protocol test reconnection'', 1)] (Some ''NOQUEUE''))"
  by (simp add: action_filter_def dd_get_def dd_touch_def)

text \<open>
  Claim C6, amended. A name of the filter (a string without \<^verbatim>\<open>|\<close> and \<^verbatim>\<open>&\<close>) is present
  exactly when the counter stored under that very key is positive: the lookup is
  \<^verbatim>\<open>self.actions[and_action]\<close>, an exact key, and no prefix of a key is ever compared.
\<close>
theorem literal_exact_lookup:
  assumes "CHR ''|'' \<notin> set lit" and "CHR ''&'' \<notin> set lit"
  shows "fst (action_filter acts (Some lit)) = (0 < dd_get acts lit)"
  using assms by (simp add: action_filter_Some split_str_no_sep)

text \<open>Claim C6, amended, at the full key of the 450 rejection.\<close>
theorem literal_exact_lookup_witness:
  "CHR ''|'' \<notin> set ''NOQUEUE 450 deep protocol test reconnection''
   \<and> CHR ''&'' \<notin> set ''NOQUEUE 450 deep protocol test reconnection''
   \<and> fst (action_filter [(''NOQUEUE 450 deep protocol test reconnection'', 1)]
            (Some ''NOQUEUE 450 deep protocol test reconnection''))
   \<and> 0 < dd_get [(''NOQUEUE 450 deep protocol test reconnection'', 1)]
            ''NOQUEUE 450 deep protocol test reconnection''"
proof -
  have a: "CHR ''|'' \<notin> set ''NOQUEUE 450 deep protocol test reconnection''" by simp
  have b: "CHR ''&'' \<notin> set ''NOQUEUE 450 deep protocol test reconnection''" by simp
  have c: "0 < dd_get [(''NOQUEUE 450 deep protocol test reconnection'', 1)]
            ''NOQUEUE 450 deep protocol test reconnection''" by (simp add: dd_get_def)
  show ?thesis
    using a b c literal_exact_lookup [OF a b, of "[(''NOQUEUE 450 deep protocol test reconnection'', 1)]"]
    by simp
qed

text \<open>
  Claim C10 as stated fails: in \<^verbatim>\<open>HANGUP&\<close> the empty operand is not satisfied, so a client
  with a \<^verbatim>\<open>HANGUP\<close> is rejected; the filter \<^verbatim>\<open>|\<close>, made of two empty alternatives, rejects
  it as well.
\<close>
theorem empty_operand_counterexample:
  "split_str CHR ''&'' ''HANGUP&'' = [''HANGUP'', []]
   \<and> \<not> fst (action_filter [(''HANGUP'', 1)] (Some ''HANGUP&''))
   \<and> split_str CHR ''|'' ''|'' = [] # [] # []
   \<and> \<not> fst (action_filter [(''HANGUP'', 1)] (Some ''|''))"
  by (simp add: action_filter_def dd_get_def dd_touch_def)

text \<open>
  Claim C10, amended. The evaluator is a total function of the filter string, so no filter
  makes it fail. An empty operand is looked up as the name \<^verbatim>\<open>""\<close>: when that counter is not
  positive, an alternative with an empty operand (an empty alternative included) is false,
  and the filter passes exactly when some alternative without empty operand has a positive
  count for each of its names.
\<close>
theorem empty_operand_is_literal:
  assumes "dd_get acts [] \<le> 0"
  shows "fst (action_filter acts (Some f)) =
     (\<exists>d \<in> set (split_str CHR ''|'' f).
        [] \<notin> set (split_str CHR ''&'' d) \<and> (\<forall>l \<in> set (split_str CHR ''&'' d). 0 < dd_get acts l))"
proof -
  have "(\<forall>l \<in> set ls. 0 < dd_get acts l) =
        ([] \<notin> set ls \<and> (\<forall>l \<in> set ls. 0 < dd_get acts l))" for ls
    using assms by fastforce
  then show ?thesis by (simp add: action_filter_Some)
qed

text \<open>
  Claim C10, amended, at \<^verbatim>\<open>{PREGREET: 1}\<close>: \<^verbatim>\<open>HANGUP&||PREGREET\<close> passes through its last
  alternative only, and \<^verbatim>\<open>PREGREET&|\<close> does not pass.
\<close>
theorem empty_operand_is_literal_witness:
  "dd_get [(''PREGREET'', 1)] [] \<le> 0
   \<and> fst (action_filter [(''PREGREET'', 1)] (Some ''HANGUP&||PREGREET''))
   \<and> \<not> fst (action_filter [(''PREGREET'', 1)] (Some ''PREGREET&|''))"
proof -
  have h: "dd_get [(''PREGREET'', 1)] [] \<le> 0" by (simp add: dd_get_def)
  have s1: "split_str CHR ''|'' ''HANGUP&||PREGREET'' = [''HANGUP&'', [], ''PREGREET'']" by simp
  have s2: "split_str CHR ''|'' ''PREGREET&|'' = [''PREGREET&'', []]" by simp
  show ?thesis
    using h empty_operand_is_literal [OF h, of "''HANGUP&||PREGREET''"]
      empty_operand_is_literal [OF h, of "''PREGREET&|''"]
    by (simp add: s1 s2 dd_get_def)
qed

section \<open>Evaluation of the sample lines\<close>

text \<open>The sample lines, split into fields.\<close>
lemmas line_defs =
  line_fields_def action_token_def remainder_def current_ip_def syslog_date_def LOG_CURSOR_def
  isspace_def re_match_token_def ip_here_def ip_octet_dot_def ip_octet_def re_then_def
  re_char_def re_opt_def is_digit_def numeral_eq_Suc

lemma ex_connect_fields:
  "line_fields ex_cfg ex_connect_line =
    [''Oct'', ''23'', ''04:02:17'', ''mx'', ''postfix/postscreen[123]:'', ''CONNECT'',
     ''from [1.2.3.4]:1234 to [5.6.7.8]:25'']"
  by (simp add: ex_cfg_def ex_connect_line_def line_defs)

lemma ex_busy_fields:
  "line_fields ex_cfg ex_busy_line =
    [''Oct'', ''23'', ''04:02:17'', ''mx'', ''postfix/postscreen[123]:'', ''NOQUEUE:'',
     ''reject: CONNECT from [1.2.3.4]:1234: all server ports busy'']"
  by (simp add: ex_cfg_def ex_busy_line_def line_defs)

lemma ex_pass_old_fields:
  "line_fields ex_cfg ex_pass_old_line =
    [''Oct'', ''23'', ''04:03:17'', ''mx'', ''postfix/postscreen[123]:'', ''PASS'',
     ''OLD [1.2.3.4]:1234'']"
  by (simp add: ex_cfg_def ex_pass_old_line_def line_defs)

lemma ex_hangup_fields:
  "line_fields ex_cfg ex_hangup_line =
    [''Oct'', ''23'', ''04:03:18'', ''mx'', ''postfix/postscreen[123]:'', ''HANGUP'',
     ''after 0.5 from [1.2.3.4]:1234 in tests after SMTP handshake'']"
  by (simp add: ex_cfg_def ex_hangup_line_def line_defs)

lemma ex_cursor: "LOG_CURSOR ex_cfg = 5"
  by (simp add: LOG_CURSOR_def ex_cfg_def)

lemma ip_search_connect: "ip_search ''from [1.2.3.4]:1234 to [5.6.7.8]:25'' = Some ''1.2.3.4''"
  by (simp add: line_defs)

lemma ip_search_busy:
  "ip_search ''reject: CONNECT from [1.2.3.4]:1234: all server ports busy'' = Some ''1.2.3.4''"
  by (simp add: line_defs)

lemma ip_search_pass_old: "ip_search ''OLD [1.2.3.4]:1234'' = Some ''1.2.3.4''"
  by (simp add: line_defs)

lemma ip_search_hangup:
  "ip_search ''after 0.5 from [1.2.3.4]:1234 in tests after SMTP handshake'' = Some ''1.2.3.4''"
  by (simp add: line_defs)

lemma ex_connect_ip: "current_ip ex_cfg ex_connect_line = ''1.2.3.4''"
  by (simp only: current_ip_def remainder_def ex_connect_fields ex_cursor) (simp add: line_defs)

lemma ex_busy_ip: "current_ip ex_cfg ex_busy_line = ''1.2.3.4''"
  by (simp only: current_ip_def remainder_def ex_busy_fields ex_cursor) (simp add: line_defs)

lemma ex_pass_old_ip: "current_ip ex_cfg ex_pass_old_line = ''1.2.3.4''"
  by (simp only: current_ip_def remainder_def ex_pass_old_fields ex_cursor) (simp add: line_defs)

lemma ex_hangup_ip: "current_ip ex_cfg ex_hangup_line = ''1.2.3.4''"
  by (simp only: current_ip_def remainder_def ex_hangup_fields ex_cursor) (simp add: line_defs)

lemma ex_marker:
  "contains ''/postscreen['' ex_connect_line" "contains ''/postscreen['' ex_busy_line"
  "contains ''/postscreen['' ex_pass_old_line" "contains ''/postscreen['' ex_hangup_line"
  "contains (IP_FILTER ex_cfg) ex_connect_line" "contains (IP_FILTER ex_cfg) ex_busy_line"
  "contains (IP_FILTER ex_cfg) ex_pass_old_line" "contains (IP_FILTER ex_cfg) ex_hangup_line"
  by (simp_all add: ex_cfg_def ex_connect_line_def ex_busy_line_def ex_pass_old_line_def ex_hangup_line_def)

section \<open>Properties of the main loop\<close>

lemma gen_unix_ts_raises: "gen_unix_ts lib cfg now_ts syslog_ts = Inl TypeError"
  by (simp add: gen_unix_ts_def)

lemma connect_raises:
  "connect lib cfg now_ts ip date ipl =
     Inl (TypeError, case map_of ipl ip of None \<Rightarrow> AList.update ip new_ClientStat ipl | Some cs \<Rightarrow> ipl)"
  by (simp add: connect_def gen_unix_ts_raises split: option.splits)

lemma connect_line_raises:
  assumes "contains ''/postscreen['' line" and "contains (IP_FILTER cfg) line"
    and "LOG_CURSOR cfg + 1 < length (line_fields cfg line)"
    and "re_match_token ''CONNECT'' (action_token cfg line)"
  shows "\<exists>ipl'. process_line lib cfg now_ts ipl line = Inl (TypeError, ipl')"
  using assms by (simp add: process_line_def connect_raises)

lemma connect_in_log_raises:
  assumes "contains ''/postscreen['' line" and "contains (IP_FILTER cfg) line"
    and "LOG_CURSOR cfg + 1 < length (line_fields cfg line)"
    and "re_match_token ''CONNECT'' (action_token cfg line)"
  shows "line \<in> set lines \<Longrightarrow> \<exists>err. process_lines lib cfg now_ts ipl lines = Inl err"
proof (induction lines arbitrary: ipl)
  case Nil
  then show ?case by simp
next
  case (Cons l ls)
  show ?case
  proof (cases "process_line lib cfg now_ts ipl l")
    case (Inl err)
    then show ?thesis by simp
  next
    case (Inr ipl1)
    have "l \<noteq> line"
      using connect_line_raises [OF assms, of lib now_ts ipl] Inr by auto
    then have "line \<in> set ls" using Cons.prems by simp
    then show ?thesis using Cons.IH [of ipl1] Inr by simp
  qed
qed

text \<open>
  Claim C1. Whatever the time stamp string, the configuration and the time library,
  \<^verbatim>\<open>gen_unix_ts\<close> raises \<^verbatim>\<open>TypeError\<close> at \<^verbatim>\<open>int(now_ts)\<close> and returns no time stamp.
  Consequently every line that reaches the \<^verbatim>\<open>CONNECT\<close> branch (it holds the postscreen
  marker and the address filter, has a remainder after the action token, and its action
  token is \<^verbatim>\<open>CONNECT\<close>) ends with \<^verbatim>\<open>TypeError\<close>, and the main loop over any log that
  holds such a line ends with an exception.
\<close>
theorem gen_unix_ts_never_returns:
  "gen_unix_ts lib cfg now_ts syslog_ts = Inl TypeError
   \<and> (contains ''/postscreen['' line \<and> contains (IP_FILTER cfg) line
        \<and> LOG_CURSOR cfg + 1 < length (line_fields cfg line)
        \<and> re_match_token ''CONNECT'' (action_token cfg line)
      \<longrightarrow> (\<exists>ipl'. process_line lib cfg now_ts ipl line = Inl (TypeError, ipl'))
          \<and> (line \<in> set lines \<longrightarrow> (\<exists>err. process_lines lib cfg now_ts ipl lines = Inl err)))"
  using connect_line_raises [of line cfg lib now_ts ipl]
    connect_in_log_raises [of line cfg lines lib now_ts ipl]
  by (simp add: gen_unix_ts_raises)

text \<open>
  Claim C1, at the sample \<^verbatim>\<open>CONNECT\<close> line, an empty client list and a log of three lines.
\<close>
theorem gen_unix_ts_never_returns_witness:
  "contains ''/postscreen['' ex_connect_line \<and> contains (IP_FILTER ex_cfg) ex_connect_line
   \<and> LOG_CURSOR ex_cfg + 1 < length (line_fields ex_cfg ex_connect_line)
   \<and> re_match_token ''CONNECT'' (action_token ex_cfg ex_connect_line)
   \<and> ex_connect_line \<in> set [ex_hangup_line, ex_connect_line, ex_pass_old_line]
   \<and> gen_unix_ts ex_lib ex_cfg ex_now ''Oct 23 04:02:17'' = Inl TypeError
   \<and> (\<exists>ipl'. process_line ex_lib ex_cfg ex_now [] ex_connect_line = Inl (TypeError, ipl'))
   \<and> (\<exists>err. process_lines ex_lib ex_cfg ex_now []
                [ex_hangup_line, ex_connect_line, ex_pass_old_line] = Inl err)"
proof -
  have h: "contains ''/postscreen['' ex_connect_line \<and> contains (IP_FILTER ex_cfg) ex_connect_line
      \<and> LOG_CURSOR ex_cfg + 1 < length (line_fields ex_cfg ex_connect_line)
      \<and> re_match_token ''CONNECT'' (action_token ex_cfg ex_connect_line)"
    by (simp add: ex_marker action_token_def ex_connect_fields ex_cursor re_match_token_def)
  have m: "ex_connect_line \<in> set [ex_hangup_line, ex_connect_line, ex_pass_old_line]"
    by simp
  show ?thesis
    using h m gen_unix_ts_never_returns [of ex_lib ex_cfg ex_now "''Oct 23 04:02:17''"
        ex_connect_line "[]" "[ex_hangup_line, ex_connect_line, ex_pass_old_line]"]
    by blast
qed

text \<open>
  Claim C7 is not met by the code. On a single well-formed \<^verbatim>\<open>CONNECT\<close> line for a new
  address the branch stores a fresh \<^verbatim>\<open>ClientStat\<close> and then raises \<^verbatim>\<open>TypeError\<close> in
  \<^verbatim>\<open>gen_unix_ts\<close>: the record exists, its \<^verbatim>\<open>CONNECT\<close> counter is 0 and it has no
  \<^verbatim>\<open>FIRST SEEN\<close>.
\<close>
theorem connect_leaves_record_without_counter:
  "process_line lib ex_cfg now_ts [] ex_connect_line = Inl (TypeError, [(''1.2.3.4'', new_ClientStat)])
   \<and> dd_get (logs new_ClientStat) k_connect = 0
   \<and> map_of (logs new_ClientStat) k_first = None"
  by (simp add: process_line_def ex_marker ex_connect_fields ex_cursor action_token_def
      ex_connect_ip re_match_token_def connect_raises new_ClientStat_def dd_get_def)

text \<open>
  Claim C8 as stated fails: with an empty \<^verbatim>\<open>IP_LIST\<close>, a postscreen line that ends at
  its action token \<^verbatim>\<open>HANGUP\<close> has six fields only, so \<^verbatim>\<open>line_fields[LOG_CURSOR + 1]\<close>
  raises \<^verbatim>\<open>IndexError\<close> and the main loop stops.
\<close>
theorem unknown_client_short_line_counterexample:
  "line_fields ex_cfg ex_short_line =
     [''Oct'', ''23'', ''04:03:18'', ''mx'', ''postfix/postscreen[123]:'', ''HANGUP'']
   \<and> process_line ex_lib ex_cfg ex_now [] ex_short_line = Inl (IndexError, [])
   \<and> process_lines ex_lib ex_cfg ex_now [] [ex_short_line] = Inl (IndexError, [])"
proof -
  have f: "line_fields ex_cfg ex_short_line =
     [''Oct'', ''23'', ''04:03:18'', ''mx'', ''postfix/postscreen[123]:'', ''HANGUP'']"
    by (simp add: ex_cfg_def ex_short_line_def line_defs)
  have m: "contains ''/postscreen['' ex_short_line \<and> contains (IP_FILTER ex_cfg) ex_short_line"
    by (simp add: ex_cfg_def ex_short_line_def)
  have p: "process_line ex_lib ex_cfg ex_now [] ex_short_line = Inl (IndexError, [])"
    by (simp add: process_line_def m f ex_cursor)
  show ?thesis using f p by simp
qed

text \<open>
  Claim C8, amended. A line that has a remainder after its action token, whose token is not
  \<^verbatim>\<open>CONNECT\<close> and whose address has no entry in \<^verbatim>\<open>IP_LIST\<close>, is processed without
  exception and leaves \<^verbatim>\<open>IP_LIST\<close> exactly as it was; in particular no entry is created.
\<close>
theorem unknown_client_dropped:
  assumes "LOG_CURSOR cfg + 1 < length (line_fields cfg line)"
    and "\<not> re_match_token ''CONNECT'' (action_token cfg line)"
    and "map_of ipl (current_ip cfg line) = None"
  shows "process_line lib cfg now_ts ipl line = Inr ipl"
  using assms by (simp add: process_line_def)

text \<open>
  Claim C8, amended, at the sample \<^verbatim>\<open>HANGUP\<close> line from 1.2.3.4 while only 5.6.7.8 is
  known.
\<close>
theorem unknown_client_dropped_witness:
  "LOG_CURSOR ex_cfg + 1 < length (line_fields ex_cfg ex_hangup_line)
   \<and> \<not> re_match_token ''CONNECT'' (action_token ex_cfg ex_hangup_line)
   \<and> map_of [(''5.6.7.8'', new_ClientStat)] (current_ip ex_cfg ex_hangup_line) = None
   \<and> process_line ex_lib ex_cfg ex_now [(''5.6.7.8'', new_ClientStat)] ex_hangup_line
        = Inr [(''5.6.7.8'', new_ClientStat)]"
proof -
  have a: "LOG_CURSOR ex_cfg + 1 < length (line_fields ex_cfg ex_hangup_line)"
    by (simp add: ex_hangup_fields ex_cursor)
  have b: "\<not> re_match_token ''CONNECT'' (action_token ex_cfg ex_hangup_line)"
    by (simp add: action_token_def ex_hangup_fields ex_cursor re_match_token_def)
  have c: "map_of [(''5.6.7.8'', new_ClientStat)] (current_ip ex_cfg ex_hangup_line) = None"
    by (simp add: ex_hangup_ip)
  show ?thesis
    using a b c unknown_client_dropped [OF a b c, of ex_lib ex_now] by simp
qed

lemma busy_not_in_token:
  "re_match_token ''NOQUEUE:'' tok \<Longrightarrow> \<not> re_search ''all server ports busy'' tok"
  by (auto simp: re_match_token_def)

lemma incr_action_other:
  "k \<noteq> k' \<Longrightarrow> dd_get (actions (incr_action k cs)) k' = dd_get (actions cs) k'"
  by (simp add: incr_action_def dd_get_add)

lemma pass_old_actions:
  "k' \<noteq> ''PASS OLD'' \<Longrightarrow> dd_get (actions (pass_old cs)) k' = dd_get (actions cs) k'"
  by (simp add: pass_old_def Let_def dd_get_add dd_get_touch)

lemma count_action_busy:
  "dd_get (actions (case count_action tok rest cs of Inl (e, c) \<Rightarrow> c | Inr c \<Rightarrow> c))
      ''NOQUEUE all server ports busy''
     = dd_get (actions cs) ''NOQUEUE all server ports busy''"
proof (cases "re_match_token ''NOQUEUE:'' tok")
  case True
  then show ?thesis
    using busy_not_in_token [OF True]
    by (simp add: count_action_def Let_def incr_action_other pass_old_actions k_noq450_def)
next
  case False
  then show ?thesis
    by (simp add: count_action_def Let_def incr_action_other pass_old_actions)
qed

text \<open>
  Claim C9 is not met by the code. For the known client 1.2.3.4, the line
  \<^verbatim>\<open>NOQUEUE: reject: CONNECT from [1.2.3.4]:1234: all server ports busy\<close> changes nothing:
  the pattern is searched in the action token, not in the remainder. More generally no
  token and remainder ever change the counter \<^verbatim>\<open>NOQUEUE all server ports busy\<close>.
\<close>
theorem ports_busy_never_counted:
  "process_line lib ex_cfg now_ts ex_known ex_busy_line = Inr ex_known
   \<and> dd_get (actions (case count_action tok rest cs of Inl (e, c) \<Rightarrow> c | Inr c \<Rightarrow> c)) k_busy
       = dd_get (actions cs) k_busy"
proof -
  have "count_action ''NOQUEUE:''
          ''reject: CONNECT from [1.2.3.4]:1234: all server ports busy'' c = Inr c" for c
    by (simp add: count_action_def re_match_token_def)
  then have "process_line lib ex_cfg now_ts ex_known ex_busy_line = Inr ex_known"
    by (simp add: process_line_def ex_marker ex_busy_fields ex_cursor action_token_def
        remainder_def ex_busy_ip re_match_token_def ex_known_def)
  then show ?thesis
    using count_action_busy [of tok rest cs] by (simp add: k_busy_def)
qed

section \<open>The reconnection delay\<close>

lemma pass_old_logs:
  "dd_get (logs (pass_old cs)) k_connect = dd_get (logs cs) k_connect"
  "dd_get (logs (pass_old cs)) k_last = dd_get (logs cs) k_last"
  "dd_get (logs (pass_old cs)) k_first = dd_get (logs cs) k_first"
  by (simp_all add: pass_old_def Let_def dd_get_touch dd_get_set k_connect_def k_last_def
      k_first_def k_reco_def)

lemma pass_old_reco:
  "dd_get (logs (pass_old cs)) k_reco =
     (if dd_get (logs cs) k_connect = 2 \<and> 0 < dd_get (actions cs) k_noq450
      then dd_get (logs cs) k_last - dd_get (logs cs) k_first
      else dd_get (logs cs) k_reco)"
  by (simp add: pass_old_def Let_def dd_get_touch dd_get_set dd_get_add k_noq450_def)

lemma pass_old_settled: "reco_settled d cs \<Longrightarrow> reco_settled d (pass_old cs)"
  by (simp add: reco_settled_def pass_old_logs pass_old_reco)

lemma count_action_cases:
  "count_action tok rest cs = Inr cs' \<Longrightarrow> logs cs' = logs cs \<or> cs' = pass_old cs"
  by (auto simp: count_action_def incr_action_def Let_def split: if_splits)

lemma count_action_settled:
  "count_action tok rest cs = Inr cs' \<Longrightarrow> reco_settled d cs \<Longrightarrow> reco_settled d cs'"
  using count_action_cases [of tok rest cs cs'] pass_old_settled [of d cs]
  by (auto simp: reco_settled_def)

lemma process_line_settled:
  assumes "process_line lib cfg now_ts ipl line = Inr ipl'"
    and "map_of ipl ip = Some cs" and "reco_settled d cs"
  shows "\<exists>cs'. map_of ipl' ip = Some cs' \<and> reco_settled d cs'"
proof (cases "contains ''/postscreen['' line \<and> contains (IP_FILTER cfg) line")
  case False
  then have "ipl' = ipl" using assms(1) by (auto simp: process_line_def split: if_splits)
  then show ?thesis using assms by simp
next
  case True
  have conn: "\<not> re_match_token ''CONNECT'' (action_token cfg line)"
    using assms(1) True by (auto simp: process_line_def connect_raises split: if_splits)
  have len: "\<not> length (line_fields cfg line) \<le> LOG_CURSOR cfg + 1"
    using assms(1) True by (auto simp: process_line_def split: if_splits)
  show ?thesis
  proof (cases "map_of ipl (current_ip cfg line)")
    case None
    then have "ipl' = ipl" using assms(1) True conn len by (simp add: process_line_def)
    then show ?thesis using assms by simp
  next
    case (Some c)
    obtain c' where c': "count_action (action_token cfg line) (remainder cfg line) c = Inr c'"
      and upd: "ipl' = AList.update (current_ip cfg line) c' ipl"
      using assms(1) True conn len Some
      by (auto simp: process_line_def split: sum.splits prod.splits)
    show ?thesis
    proof (cases "current_ip cfg line = ip")
      case True
      then have "c = cs" using Some assms(2) by simp
      then have "reco_settled d c'" using count_action_settled [OF c'] assms(3) by simp
      then show ?thesis using upd True by (simp add: update_conv')
    next
      case False
      then show ?thesis using upd assms by (simp add: update_conv')
    qed
  qed
qed

lemma process_lines_settled:
  "process_lines lib cfg now_ts ipl lines = Inr ipl' \<Longrightarrow> map_of ipl ip = Some cs
   \<Longrightarrow> reco_settled d cs \<Longrightarrow> \<exists>cs'. map_of ipl' ip = Some cs' \<and> reco_settled d cs'"
proof (induction lines arbitrary: ipl cs)
  case Nil
  then show ?case by simp
next
  case (Cons line lines)
  from Cons.prems(1) obtain ipl1 where
    step: "process_line lib cfg now_ts ipl line = Inr ipl1"
    and rest: "process_lines lib cfg now_ts ipl1 lines = Inr ipl'"
    by (auto split: sum.splits)
  from process_line_settled [OF step Cons.prems(2) Cons.prems(3)]
  obtain cs1 where "map_of ipl1 ip = Some cs1" "reco_settled d cs1" by blast
  then show ?case using Cons.IH [OF rest] by blast
qed

lemma pass_old_line_step:
  assumes "contains ''/postscreen['' line" and "contains (IP_FILTER cfg) line"
    and "LOG_CURSOR cfg + 1 < length (line_fields cfg line)"
    and "re_match_token ''PASS'' (action_token cfg line)"
    and "starts_with ''OLD'' (remainder cfg line)"
    and "map_of ipl (current_ip cfg line) = Some cs"
  shows "process_line lib cfg now_ts ipl line
           = Inr (AList.update (current_ip cfg line) (pass_old cs) ipl)"
proof -
  have "\<not> re_match_token ''CONNECT'' (action_token cfg line)"
    using assms(4) by (auto simp: re_match_token_def)
  then show ?thesis
    using assms by (simp add: process_line_def count_action_def)
qed

text \<open>
  Claim C2. Let a \<^verbatim>\<open>PASS OLD\<close> line for a known client be processed while the client's
  \<^verbatim>\<open>CONNECT\<close> counter is 2 and its counter
  \<^verbatim>\<open>NOQUEUE 450 deep protocol test reconnection\<close> is positive. Then the line is processed
  without exception, \<^verbatim>\<open>RECO. DELAY (graylist)\<close> becomes \<^verbatim>\<open>LAST SEEN - FIRST SEEN\<close> (both
  unchanged by the line), and after any further lines that the main loop processes
  without exception, later \<^verbatim>\<open>PASS OLD\<close> lines included, the stored delay is still that value.
\<close>
theorem reco_delay_set_once:
  assumes "contains ''/postscreen['' line" and "contains (IP_FILTER cfg) line"
    and "LOG_CURSOR cfg + 1 < length (line_fields cfg line)"
    and "re_match_token ''PASS'' (action_token cfg line)"
    and "starts_with ''OLD'' (remainder cfg line)"
    and "map_of ipl (current_ip cfg line) = Some cs"
    and "dd_get (logs cs) k_connect = 2"
    and "0 < dd_get (actions cs) k_noq450"
  shows "\<exists>ipl1 cs1. process_line lib cfg now_ts ipl line = Inr ipl1
          \<and> map_of ipl1 (current_ip cfg line) = Some cs1
          \<and> dd_get (logs cs1) k_last = dd_get (logs cs) k_last
          \<and> dd_get (logs cs1) k_first = dd_get (logs cs) k_first
          \<and> dd_get (logs cs1) k_reco = dd_get (logs cs1) k_last - dd_get (logs cs1) k_first
          \<and> (\<forall>lines ipl2. process_lines lib cfg now_ts ipl1 lines = Inr ipl2 \<longrightarrow>
                (\<exists>cs2. map_of ipl2 (current_ip cfg line) = Some cs2
                       \<and> dd_get (logs cs2) k_reco = dd_get (logs cs1) k_reco))"
proof -
  let ?ip = "current_ip cfg line"
  let ?ipl1 = "AList.update ?ip (pass_old cs) ipl"
  let ?d = "dd_get (logs cs) k_last - dd_get (logs cs) k_first"
  have step: "process_line lib cfg now_ts ipl line = Inr ?ipl1"
    using pass_old_line_step [OF assms(1-6)] .
  have look: "map_of ?ipl1 ?ip = Some (pass_old cs)"
    by (simp add: update_conv')
  have settled: "reco_settled ?d (pass_old cs)"
    using assms(7,8) by (simp add: reco_settled_def pass_old_logs pass_old_reco)
  have later: "\<exists>cs2. map_of ipl2 ?ip = Some cs2
                 \<and> dd_get (logs cs2) k_reco = dd_get (logs (pass_old cs)) k_reco"
    if "process_lines lib cfg now_ts ?ipl1 lines = Inr ipl2" for lines ipl2
    using process_lines_settled [OF that look settled] settled
    by (auto simp: reco_settled_def)
  show ?thesis
    using step look settled later
    by (intro exI [of _ ?ipl1] exI [of _ "pass_old cs"]) (simp add: reco_settled_def pass_old_logs)
qed


lemma ex_pass_old_step:
  "process_line ex_lib ex_cfg ex_now ex_known ex_pass_old_line = Inr ex_after_pass_old"
  by (simp add: process_line_def ex_marker ex_pass_old_fields ex_cursor action_token_def
      remainder_def ex_pass_old_ip re_match_token_def ex_known_def count_action_def
      pass_old_def Let_def dd_get_def dd_touch_def dd_add_def dd_set_def ex_after_pass_old_def
      k_connect_def k_noq450_def k_last_def k_first_def k_reco_def)

lemma ex_later_lines:
  "process_lines ex_lib ex_cfg ex_now ex_after_pass_old
       [ex_pass_old_line, ex_hangup_line, ex_pass_old_line] =
    Inr [(''1.2.3.4'',
      \<lparr>logs = [(''FIRST SEEN'', 100), (''LAST SEEN'', 160), (''CONNECT'', 2),
               (''RECO. DELAY (graylist)'', 60)],
       actions = [(''NOQUEUE 450 deep protocol test reconnection'', 1), (''PASS OLD'', 3),
                  (''HANGUP'', 1)],
       dnsbl_ranks = []\<rparr>)]"
  by code_simp

text \<open>
  Claim C2, at the sample client (first seen at 100, last seen at 160): the delay is 60
  after the first \<^verbatim>\<open>PASS OLD\<close> line and still 60 after two more \<^verbatim>\<open>PASS OLD\<close> lines and
  a \<^verbatim>\<open>HANGUP\<close> line.
\<close>
theorem reco_delay_set_once_witness:
  "contains ''/postscreen['' ex_pass_old_line \<and> contains (IP_FILTER ex_cfg) ex_pass_old_line
   \<and> LOG_CURSOR ex_cfg + 1 < length (line_fields ex_cfg ex_pass_old_line)
   \<and> re_match_token ''PASS'' (action_token ex_cfg ex_pass_old_line)
   \<and> starts_with ''OLD'' (remainder ex_cfg ex_pass_old_line)
   \<and> map_of ex_known (current_ip ex_cfg ex_pass_old_line)
        = Some \<lparr>logs = [(''FIRST SEEN'', 100), (''LAST SEEN'', 160), (''CONNECT'', 2)],
                 actions = [(''NOQUEUE 450 deep protocol test reconnection'', 1)],
                 dnsbl_ranks = []\<rparr>
   \<and> dd_get [(''FIRST SEEN'', 100), (''LAST SEEN'', 160), (''CONNECT'', 2)] k_connect = 2
   \<and> 0 < dd_get [(''NOQUEUE 450 deep protocol test reconnection'', 1)] k_noq450
   \<and> (\<exists>ipl1 cs1 ipl2 cs2.
          process_line ex_lib ex_cfg ex_now ex_known ex_pass_old_line = Inr ipl1
          \<and> map_of ipl1 ''1.2.3.4'' = Some cs1
          \<and> dd_get (logs cs1) k_reco = 60
          \<and> process_lines ex_lib ex_cfg ex_now ipl1
               [ex_pass_old_line, ex_hangup_line, ex_pass_old_line] = Inr ipl2
          \<and> map_of ipl2 ''1.2.3.4'' = Some cs2
          \<and> dd_get (actions cs2) ''PASS OLD'' = 3
          \<and> dd_get (logs cs2) k_reco = 60)"
proof -
  let ?cs = "\<lparr>logs = [(''FIRST SEEN'', 100), (''LAST SEEN'', 160), (''CONNECT'', 2)],
                 actions = [(''NOQUEUE 450 deep protocol test reconnection'', 1)],
                 dnsbl_ranks = []\<rparr>"
  let ?lines = "[ex_pass_old_line, ex_hangup_line, ex_pass_old_line]"
  have h1: "contains ''/postscreen['' ex_pass_old_line" by (simp add: ex_marker)
  have h2: "contains (IP_FILTER ex_cfg) ex_pass_old_line" by (simp add: ex_marker)
  have h3: "LOG_CURSOR ex_cfg + 1 < length (line_fields ex_cfg ex_pass_old_line)"
    by (simp add: ex_pass_old_fields ex_cursor)
  have h4: "re_match_token ''PASS'' (action_token ex_cfg ex_pass_old_line)"
    by (simp add: action_token_def ex_pass_old_fields ex_cursor re_match_token_def)
  have h5: "starts_with ''OLD'' (remainder ex_cfg ex_pass_old_line)"
    by (simp add: remainder_def ex_pass_old_fields ex_cursor)
  have h6: "map_of ex_known (current_ip ex_cfg ex_pass_old_line) = Some ?cs"
    by (simp add: ex_pass_old_ip ex_known_def)
  have h7: "dd_get (logs ?cs) k_connect = 2" by (simp add: dd_get_def k_connect_def)
  have h8: "0 < dd_get (actions ?cs) k_noq450" by (simp add: dd_get_def k_noq450_def)
  from reco_delay_set_once [OF h1 h2 h3 h4 h5 h6 h7 h8, of ex_lib ex_now]
  obtain ipl1 cs1 where
    r1: "process_line ex_lib ex_cfg ex_now ex_known ex_pass_old_line = Inr ipl1"
    and r2: "map_of ipl1 (current_ip ex_cfg ex_pass_old_line) = Some cs1"
    and r3: "dd_get (logs cs1) k_last = dd_get (logs ?cs) k_last"
    and r4: "dd_get (logs cs1) k_first = dd_get (logs ?cs) k_first"
    and r5: "dd_get (logs cs1) k_reco = dd_get (logs cs1) k_last - dd_get (logs cs1) k_first"
    and r6: "\<forall>lines ipl2. process_lines ex_lib ex_cfg ex_now ipl1 lines = Inr ipl2 \<longrightarrow>
                (\<exists>cs2. map_of ipl2 (current_ip ex_cfg ex_pass_old_line) = Some cs2
                       \<and> dd_get (logs cs2) k_reco = dd_get (logs cs1) k_reco)"
    by blast
  have v: "dd_get (logs cs1) k_reco = 60"
    using r3 r4 r5 by (simp add: dd_get_def k_last_def k_first_def)
  have i1: "ipl1 = ex_after_pass_old" using r1 ex_pass_old_step by simp
  obtain ipl2 where run: "process_lines ex_lib ex_cfg ex_now ipl1 ?lines = Inr ipl2"
    and cnt: "\<exists>c. map_of ipl2 ''1.2.3.4'' = Some c \<and> dd_get (actions c) ''PASS OLD'' = 3"
    using ex_later_lines i1 by (simp add: dd_get_def)
  from r6 run obtain cs2 where
    s1: "map_of ipl2 (current_ip ex_cfg ex_pass_old_line) = Some cs2"
    and s2: "dd_get (logs cs2) k_reco = dd_get (logs cs1) k_reco"
    by blast
  have s3: "map_of ipl2 ''1.2.3.4'' = Some cs2" using s1 by (simp only: ex_pass_old_ip)
  have s4: "dd_get (actions cs2) ''PASS OLD'' = 3" using cnt s3 by auto
  have res: "\<exists>ipl1 cs1 ipl2 cs2.
          process_line ex_lib ex_cfg ex_now ex_known ex_pass_old_line = Inr ipl1
          \<and> map_of ipl1 ''1.2.3.4'' = Some cs1
          \<and> dd_get (logs cs1) k_reco = 60
          \<and> process_lines ex_lib ex_cfg ex_now ipl1 ?lines = Inr ipl2
          \<and> map_of ipl2 ''1.2.3.4'' = Some cs2
          \<and> dd_get (actions cs2) ''PASS OLD'' = 3
          \<and> dd_get (logs cs2) k_reco = 60"
    using r1 r2 v run s3 s4 s2 by (simp only: ex_pass_old_ip) blast
  show ?thesis
    using h1 h2 h3 h4 h5 h6 h7 h8 res by simp
qed

section \<open>Properties of the summary\<close>

text \<open>Away from a delay of exactly 10 seconds the first buckets and the last are as labelled.\<close>
lemma comeback_bucket_ranges:
  assumes "0 < d" and "d \<noteq> 10"
  shows "(comeback_bucket d = ''<10s'') = (d < 10)"
    and "(comeback_bucket d = ''10s to 30s'') = (10 \<le> d \<and> d \<le> 30)"
    and "(comeback_bucket d = ''>30s to 1min'') = (30 < d \<and> d \<le> 60)"
    and "(comeback_bucket d = ''>24h'') = (86400 < d)"
  using assms by (simp_all add: comeback_bucket_def)

lemma ex_delay10_summary:
  "summarize ex_cfg ex_delay10 =
    Inr \<lparr>clients =
        [(''1.2.3.4'',
          \<lparr>logs =
             [(''FIRST SEEN'', 100), (''LAST SEEN'', 110), (''CONNECT'', 2),
              (''RECO. DELAY (graylist)'', 10)],
             actions =
               [(''NOQUEUE 450 deep protocol test reconnection'', 1),
                (''PASS OLD'', 1), (''DNSBL'', 0)],
             dnsbl_ranks = []\<rparr>)],
        CLIENTS =
          [(''clients'', 1), (''reconnections'', 1),
           (''seconds avg. reco. delay'', 10)],
        COMEBACK =
          [(''<10s'', 0), (''10s to 30s'', 0), (''>30s to 1min'', 0),
           (''>1min to 5min'', 0), (''>5 min to 30min'', 0),
           (''>30min to 2h'', 0), (''>2h to 5h'', 0), (''>5h to 12h'', 0),
           (''>12h to 24h'', 0), (''>24h'', 1)],
        POSTSCREEN_STATS =
          [(''NOQUEUE 450 deep protocol test reconnection'', 1),
           (''PASS OLD'', 1), (''DNSBL'', 0)]\<rparr>"
  by code_simp

text \<open>
  Claim C3 is not met by the code. A delay of exactly 30 seconds is counted under
  \<^verbatim>\<open>10s to 30s\<close>, but a delay of exactly 10 seconds passes neither \<^verbatim>\<open>< 10\<close> nor
  \<^verbatim>\<open>10 < d <= 30\<close> nor any later test and is counted by the final \<^verbatim>\<open>else\<close> under
  \<^verbatim>\<open>>24h\<close>: for the sample client with that delay the summary has 0 under
  \<^verbatim>\<open>10s to 30s\<close> and 1 under \<^verbatim>\<open>>24h\<close>.
\<close>
theorem delay_of_ten_seconds_in_last_bucket:
  "comeback_bucket 10 = ''>24h''
   \<and> comeback_bucket 30 = ''10s to 30s''
   \<and> (\<exists>S. summarize ex_cfg ex_delay10 = Inr S
          \<and> dd_get (COMEBACK S) ''10s to 30s'' = 0
          \<and> dd_get (COMEBACK S) ''>24h'' = 1)"
  by (simp add: comeback_bucket_def ex_delay10_summary dd_get_def)

text \<open>
  Whenever the guard of the second average holds and \<^verbatim>\<open>POSTSCREEN_STATS["dnsbl"]\<close> is 0,
  the division raises.
\<close>
lemma averages_raises:
  assumes "0 < dd_get (POSTSCREEN_STATS S) ''DNSBL''"
    and "0 < dd_get (CLIENTS S) k_avg_rank"
    and "dd_get (POSTSCREEN_STATS S) ''dnsbl'' = 0"
  shows "\<exists>S'. averages S = Inl (ZeroDivisionError, S')"
  using assms
  by (simp add: averages_def Let_def py_div_def dd_get_touch dd_get_set k_avg_rank_def
      k_avg_delay_def k_reconnections_def)

lemma ex_dnsbl_summary:
  "summarize ex_cfg ex_dnsbl =
    Inl (ZeroDivisionError,
      \<lparr>clients =
         [(''1.2.3.4'',
           \<lparr>logs =
              [(''FIRST SEEN'', 100), (''LAST SEEN'', 100),
               (''CONNECT'', 1), (''RECO. DELAY (graylist)'', 0)],
              actions = [(''DNSBL'', 1)], dnsbl_ranks = [''5'']\<rparr>)],
         CLIENTS =
           [(''clients'', 1), (''avg. dnsbl rank'', 5),
            (''reconnections'', 0)],
         COMEBACK =
           [(''<10s'', 0), (''10s to 30s'', 0), (''>30s to 1min'', 0),
            (''>1min to 5min'', 0), (''>5 min to 30min'', 0),
            (''>30min to 2h'', 0), (''>2h to 5h'', 0), (''>5h to 12h'', 0),
            (''>12h to 24h'', 0), (''>24h'', 0)],
         POSTSCREEN_STATS = [(''DNSBL'', 1), (''dnsbl'', 0)]\<rparr>)"
  by code_simp

text \<open>
  Claim C5 is not met by the code. For one client with one \<^verbatim>\<open>DNSBL\<close> event of rank 5 the
  sum of ranks is 5 and \<^verbatim>\<open>POSTSCREEN_STATS["DNSBL"]\<close> is 1, but the division is by
  \<^verbatim>\<open>POSTSCREEN_STATS["dnsbl"]\<close>, which is 0: the summary ends with
  \<^verbatim>\<open>ZeroDivisionError\<close> instead of an average of 5.
\<close>
theorem average_rank_division_by_zero:
  "\<exists>S. summarize ex_cfg ex_dnsbl = Inl (ZeroDivisionError, S)
      \<and> dd_get (CLIENTS S) k_avg_rank = 5
      \<and> dd_get (POSTSCREEN_STATS S) ''DNSBL'' = 1
      \<and> dd_get (POSTSCREEN_STATS S) ''dnsbl'' = 0"
  by (simp add: ex_dnsbl_summary dd_get_def k_avg_rank_def)

end
